theory Spec2Isabelle
  imports Main
begin

section \<open>Data of the interception library\<close>

text \<open>
  The library of \<^verbatim>\<open>source/libexec/lib.cc\<close> overrides the process-creation functions
  of the C library. A value of type \<^verbatim>\<open>char *\<close> is a null pointer or points to a string.
  An argument vector (\<^verbatim>\<open>char *const argv[]\<close>) is modelled by its cells, the terminating
  null pointer included, because the variadic entry points build theirs cell by cell.
  An environment vector is modelled by its entries, the strings before the terminator.
\<close>

datatype cptr = Null | Chars string

type_synonym argv = "cptr list"

type_synonym envp = "string list"

text \<open>
  What a caller can place in the variadic part of \<^verbatim>\<open>execl\<close>, \<^verbatim>\<open>execlp\<close> and
  \<^verbatim>\<open>execle\<close>: values of type \<^verbatim>\<open>char *\<close> and, for \<^verbatim>\<open>execle\<close>, one \<^verbatim>\<open>char **\<close>.
  A \<^verbatim>\<open>va_list\<close> is the list of the arguments not read yet.
\<close>

datatype varg = Arg cptr | Env envp

text \<open>
  Every way in which a call of the model stops without a result of the delegate:
  undefined behaviour of the variadic traversal or of an array access, and the two fatal
  conditions of the collaborators (the process aborts).
\<close>

datatype fault =
    Va_arg_past_end
  | Va_arg_wrong_type
  | Array_overrun
  | Indeterminate_cell
  | Arena_exhausted
  | Resolution_failed

text \<open>
  The five operation shapes of \<^verbatim>\<open>ear::Executor\<close>, which are also the signatures of
  the original implementations it resolves: explicit path, search by \<^verbatim>\<open>PATH\<close>, search
  in a given list, and the two spawn shapes. The spawn shapes carry the address of the
  child identifier and the two opaque handles (file actions, attributes).
\<close>

datatype request =
    Execve string argv envp
  | Execvpe string argv envp
  | ExecvP string string argv envp
  | Posix_spawn nat string nat nat argv envp
  | Posix_spawnp nat string nat nat argv envp

record session =
  destination :: "string option"
  verbose :: bool
  supervisor :: "string option"
  library :: "string option"

datatype event =
    Session_constructed envp
  | Write_message string
  | Record string
  | Delegate request

text \<open>
  The static data of the library (\<^verbatim>\<open>LOADED\<close>, \<^verbatim>\<open>SESSION\<close>), the environment of the
  process as \<^verbatim>\<open>ear::environment::current()\<close> reads it, and a trace: each construction
  of a session from an environment, each invocation of \<^verbatim>\<open>SESSION.write_message\<close> with
  its argument, each record that reaches the reporting destination, and each call of a
  resolved original implementation, in the order in which they happen. \<open>writable\<close> says
  whether the reporting destination takes a write.
\<close>

record world =
  LOADED :: bool
  SESSION :: session
  environ :: envp
  trace :: "event list"
  writable :: bool

definition BUFFER_SIZE :: nat where
  "BUFFER_SIZE = 16 * 1024"

section \<open>Variadic argument lists\<close>

text \<open>
  \<^verbatim>\<open>va_start(ap, arg)\<close> puts the traversal at the first argument after \<^verbatim>\<open>arg\<close>;
  \<^verbatim>\<open>va_end(ap)\<close> has no effect on the values.
\<close>

definition va_start :: "varg list \<Rightarrow> varg list" where
  "va_start va = va"

text \<open>
  \<^verbatim>\<open>va_arg(args, char *)\<close>: the next argument, which must be there and be a
  \<^verbatim>\<open>char *\<close>; and \<^verbatim>\<open>va_arg(args, char **)\<close>.
\<close>

fun va_arg_chars :: "varg list \<Rightarrow> fault + (cptr \<times> varg list)" where
  "va_arg_chars [] = Inl Va_arg_past_end"
| "va_arg_chars (Arg p # rest) = Inr (p, rest)"
| "va_arg_chars (Env e # rest) = Inl Va_arg_wrong_type"

fun va_arg_envp :: "varg list \<Rightarrow> fault + (envp \<times> varg list)" where
  "va_arg_envp [] = Inl Va_arg_past_end"
| "va_arg_envp (Env e # rest) = Inr (e, rest)"
| "va_arg_envp (Arg p # rest) = Inl Va_arg_wrong_type"

text \<open>
  \<^verbatim>\<open>
  size_t va_length(va_list &args) {
      size_t arg_count = 0;
      while (va_arg(args, const char *) != nullptr)
          ++arg_count;
      return arg_count;
  };
  \<close>
  The loop, with the counter as accumulator; each equation is one outcome of
  \<^verbatim>\<open>va_arg\<close>. The traversal is passed by reference, so the model returns what is left
  of it too. A \<^verbatim>\<open>size_t\<close> count is a natural number: no call has as many arguments as
  would make it wrap.
\<close>

fun va_length_loop :: "varg list \<Rightarrow> nat \<Rightarrow> fault + (nat \<times> varg list)" where
  "va_length_loop [] arg_count = Inl Va_arg_past_end"
| "va_length_loop (Env e # rest) arg_count = Inl Va_arg_wrong_type"
| "va_length_loop (Arg Null # rest) arg_count = Inr (arg_count, rest)"
| "va_length_loop (Arg (Chars s) # rest) arg_count = va_length_loop rest (Suc arg_count)"

definition va_length :: "varg list \<Rightarrow> fault + (nat \<times> varg list)" where
  "va_length args = va_length_loop args 0"

text \<open>
  \<^verbatim>\<open>
  void va_copy_n(va_list &args, char *argv[], size_t const argc) {
      for (size_t idx = 0; idx <= argc; ++idx)
          argv[idx] = va_arg(args, char *);
  };
  \<close>
  The callers pass \<^verbatim>\<open>&argv[1]\<close>: the model takes the whole array and the offset
  \<open>base\<close> of the cell the pointer refers to. A cell of a local array is \<open>None\<close> until it
  is written. A write outside the array is a fault.
\<close>

function va_copy_n_loop ::
  "varg list \<Rightarrow> cptr option list \<Rightarrow> nat \<Rightarrow> nat \<Rightarrow> nat \<Rightarrow> fault + (cptr option list \<times> varg list)"
where
  "va_copy_n_loop args cells base argc idx =
     (if idx \<le> argc then
        (case va_arg_chars args of
           Inl f \<Rightarrow> Inl f
         | Inr (p, rest) \<Rightarrow>
             if base + idx < length cells
             then va_copy_n_loop rest (cells[base + idx := Some p]) base argc (Suc idx)
             else Inl Array_overrun)
      else Inr (cells, args))"
  by pat_completeness auto
termination
  by (relation "measure (\<lambda>(args, cells, base, argc, idx). Suc argc - idx)") auto

definition va_copy_n ::
  "varg list \<Rightarrow> cptr option list \<Rightarrow> nat \<Rightarrow> nat \<Rightarrow> fault + (cptr option list \<times> varg list)"
where
  "va_copy_n args cells base argc = va_copy_n_loop args cells base argc 0"

text \<open>
  A local array handed on as \<^verbatim>\<open>char *const argv[]\<close>: every cell must have been written.
\<close>

fun decay :: "cptr option list \<Rightarrow> fault + argv" where
  "decay [] = Inr []"
| "decay (None # cells) = Inl Indeterminate_cell"
| "decay (Some p # cells) = (case decay cells of Inl f \<Rightarrow> Inl f | Inr ps \<Rightarrow> Inr (p # ps))"

text \<open>
  \<^verbatim>\<open>dlsym(RTLD_NEXT, name)\<close> is the platform's: \<open>dl\<close> gives the next definition of a
  symbol, if there is one. \<^verbatim>\<open>RESOLVER\<close> is constructed from \<^verbatim>\<open>&dynamic_linker\<close>.
\<close>

definition dynamic_linker :: "(string \<Rightarrow> 'f option) \<Rightarrow> string \<Rightarrow> 'f option" where
  "dynamic_linker dl name = dl name"

definition RESOLVER :: "(string \<Rightarrow> 'f option) \<Rightarrow> string \<Rightarrow> 'f option" where
  "RESOLVER dl = dynamic_linker dl"

section \<open>Collaborators whose code is not in the file\<close>

text \<open>
  \<^verbatim>\<open>lib.cc\<close> includes \<^verbatim>\<open>Session.h\<close>, \<^verbatim>\<open>Environment.h\<close>, \<^verbatim>\<open>Storage.h\<close>,
  \<^verbatim>\<open>Resolver.h\<close> and \<^verbatim>\<open>Executor.h\<close>, none of which is at hand. The definitions of
  this section follow the specification's description of them. The names of the reserved
  environment entries, the text of a set verbosity flag, the marker and the encodings of
  the reporting context and of the original target are not given anywhere: they are the
  fields of \<open>conventions\<close>, and every statement below holds for all of them.
\<close>

record conventions =
  key_destination :: string
  key_verbose :: string
  key_supervisor :: string
  key_library :: string
  verbose_text :: string
  marker :: string
  report_context :: "session \<Rightarrow> string list"
  original :: "request \<Rightarrow> string list"

text \<open>
  Modelled from the spec: \<^verbatim>\<open>ear::environment\<close> lookup (Environment.h is missing),
  "linear scan, returns value or absence" over \<^verbatim>\<open>KEY=VALUE\<close> strings.
\<close>

fun env_lookup :: "string \<Rightarrow> envp \<Rightarrow> string option" where
  "env_lookup key [] = None"
| "env_lookup key (e # es) =
     (if take (Suc (length key)) e = key @ ''=''
      then Some (drop (Suc (length key)) e)
      else env_lookup key es)"

text \<open>
  Modelled from the spec: \<^verbatim>\<open>ear::Session::from\<close> (Session.h is missing), "parses the
  reserved configuration keys; any missing mandatory key yields a disabled Session". The
  reporting destination, the supervisor path and the library's own path are the mandatory
  entries; the verbosity is a flag.
\<close>

definition Session_from :: "conventions \<Rightarrow> envp \<Rightarrow> session" where
  "Session_from cv environment =
     \<lparr> destination = env_lookup (key_destination cv) environment,
       verbose = (case env_lookup (key_verbose cv) environment of None \<Rightarrow> False | Some v \<Rightarrow> True),
       supervisor = env_lookup (key_supervisor cv) environment,
       library = env_lookup (key_library cv) environment \<rparr>"

text \<open>
  Modelled from the spec: the test for a disabled session (Session.h is missing), "if any
  mandatory field is absent, Session enters a disabled (pass-through) mode".
\<close>

definition is_valid :: "session \<Rightarrow> bool" where
  "is_valid S =
     (case destination S of None \<Rightarrow> False | Some d \<Rightarrow>
      (case supervisor S of None \<Rightarrow> False | Some r \<Rightarrow>
       (case library S of None \<Rightarrow> False | Some l \<Rightarrow> True)))"

text \<open>
  Modelled from the spec: the default-constructed \<^verbatim>\<open>ear::Session SESSION;\<close> (the
  constructor is in the missing Session.h) holds nothing.
\<close>

definition no_session :: session where
  "no_session = \<lparr> destination = None, verbose = False, supervisor = None, library = None \<rparr>"

text \<open>
  Modelled from the spec: the \<^verbatim>\<open>KEY=VALUE\<close> form of a session, which
  \<^verbatim>\<open>persist\<close> writes and the Executor merges into forwarded environments.
\<close>

definition entry :: "string \<Rightarrow> string \<Rightarrow> string" where
  "entry key val = key @ ''='' @ val"

text \<open>
  Modelled from the spec: the entries of a session, one for each field that is present
  (Session.h is missing).
\<close>

definition session_env :: "conventions \<Rightarrow> session \<Rightarrow> envp" where
  "session_env cv S =
     (case destination S of None \<Rightarrow> [] | Some d \<Rightarrow> [entry (key_destination cv) d]) @
     (if verbose S then [entry (key_verbose cv) (verbose_text cv)] else []) @
     (case supervisor S of None \<Rightarrow> [] | Some r \<Rightarrow> [entry (key_supervisor cv) r]) @
     (case library S of None \<Rightarrow> [] | Some l \<Rightarrow> [entry (key_library cv) l])"

text \<open>
  Modelled from the spec: \<^verbatim>\<open>ear::Storage\<close> (Storage.h is missing), "a single
  fixed-size byte buffer plus a monotonically advancing offset"; a string takes its bytes
  and the terminating zero; "overflow is a fatal condition".
\<close>

record storage =
  capacity :: nat
  used :: nat

text \<open>
  Modelled from the spec: \<^verbatim>\<open>ear::Storage storage(BUFFER, BUFFER + BUFFER_SIZE)\<close>, an
  empty arena over a buffer of the given size.
\<close>

definition Storage :: "nat \<Rightarrow> storage" where
  "Storage n = \<lparr> capacity = n, used = 0 \<rparr>"

text \<open>
  Modelled from the spec: the arena's "copy_string(s): copies bytes into the arena", which
  advances the offset or is fatal.
\<close>

definition store :: "string \<Rightarrow> storage \<Rightarrow> fault + storage" where
  "store s st =
     (if used st + Suc (length s) \<le> capacity st
      then Inr (st\<lparr>used := used st + Suc (length s)\<rparr>)
      else Inl Arena_exhausted)"

text \<open>Modelled from the spec: one string after the other, up to the first that does not fit.\<close>

fun store_all :: "string list \<Rightarrow> storage \<Rightarrow> fault + storage" where
  "store_all [] st = Inr st"
| "store_all (s # ss) st =
     (case store s st of Inl f \<Rightarrow> Inl f | Inr st' \<Rightarrow> store_all ss st')"

text \<open>
  Modelled from the spec: \<^verbatim>\<open>Session::persist\<close>, "re-serializes the resolved
  configuration into KEY=VALUE form" in the arena. The session keeps its values.
\<close>

definition Session_persist :: "conventions \<Rightarrow> session \<Rightarrow> storage \<Rightarrow> fault + session" where
  "Session_persist cv S st =
     (case store_all (session_env cv S) st of Inl f \<Rightarrow> Inl f | Inr st' \<Rightarrow> Inr S)"

text \<open>
  Modelled from the spec: whether a message of the session becomes a record (Session.h is
  missing). "Absence of any mandatory entry disables rewriting and reporting", and a
  write is "best-effort: a write failure ... never blocks or aborts the intercepted call".
\<close>

definition reporting :: "world \<Rightarrow> bool" where
  "reporting w = (is_valid (SESSION w) \<and> writable w)"

text \<open>
  Modelled from the spec: \<^verbatim>\<open>Session::write_message\<close> (Session.h is missing),
  "appends a lifecycle record (at minimum: process identity, event name) to the
  configured destination", best effort. The invocation is an event of the trace
  (\<open>Write_message\<close>), whatever the session; the record (\<open>Record\<close>) follows it when the
  session is enabled and the destination takes the write, and only then.
\<close>

definition write_message :: "string \<Rightarrow> world \<Rightarrow> world" where
  "write_message name w =
     w\<lparr>trace := trace w @ Write_message name # (if reporting w then [Record name] else [])\<rparr>"

text \<open>
  Modelled from the spec: the merge of an environment with overrides, "last-writer-wins
  per key, original relative order preserved for unmodified keys, new keys appended in
  caller-specified order".
\<close>

definition key_of :: "string \<Rightarrow> string" where
  "key_of e = takeWhile (\<lambda>c. c \<noteq> CHR ''='') e"

text \<open>
  Modelled from the spec: one override; it takes the place of the first entry with its
  key, or goes to the end.
\<close>

fun put_entry :: "string \<Rightarrow> envp \<Rightarrow> envp" where
  "put_entry e [] = [e]"
| "put_entry e (b # bs) = (if key_of b = key_of e then e # bs else b # put_entry e bs)"

text \<open>Modelled from the spec: "merge(base, overrides, arena)", the overrides in their order.\<close>

definition merge :: "envp \<Rightarrow> envp \<Rightarrow> envp" where
  "merge base overrides = foldl (\<lambda>acc e. put_entry e acc) base overrides"

text \<open>
  Modelled from the spec: the name under which the Resolver looks up the original
  implementation of each operation shape (Resolver.h is missing), "resolve(operation_name)".
\<close>

fun symbol :: "request \<Rightarrow> string" where
  "symbol (Execve path a e) = ''execve''"
| "symbol (Execvpe file a e) = ''execvpe''"
| "symbol (ExecvP file search_path a e) = ''execvP''"
| "symbol (Posix_spawn pid path file_actions attrp a e) = ''posix_spawn''"
| "symbol (Posix_spawnp pid file file_actions attrp a e) = ''posix_spawnp''"

text \<open>The parts of a request.\<close>

fun target :: "request \<Rightarrow> string" where
  "target (Execve path a e) = path"
| "target (Execvpe file a e) = file"
| "target (ExecvP file search_path a e) = file"
| "target (Posix_spawn pid path file_actions attrp a e) = path"
| "target (Posix_spawnp pid file file_actions attrp a e) = file"

fun argv_of :: "request \<Rightarrow> argv" where
  "argv_of (Execve path a e) = a"
| "argv_of (Execvpe file a e) = a"
| "argv_of (ExecvP file search_path a e) = a"
| "argv_of (Posix_spawn pid path file_actions attrp a e) = a"
| "argv_of (Posix_spawnp pid file file_actions attrp a e) = a"

fun envp_of :: "request \<Rightarrow> envp" where
  "envp_of (Execve path a e) = e"
| "envp_of (Execvpe file a e) = e"
| "envp_of (ExecvP file search_path a e) = e"
| "envp_of (Posix_spawn pid path file_actions attrp a e) = e"
| "envp_of (Posix_spawnp pid file file_actions attrp a e) = e"

fun pid_of :: "request \<Rightarrow> nat option" where
  "pid_of (Execve path a e) = None"
| "pid_of (Execvpe file a e) = None"
| "pid_of (ExecvP file search_path a e) = None"
| "pid_of (Posix_spawn pid path file_actions attrp a e) = Some pid"
| "pid_of (Posix_spawnp pid file file_actions attrp a e) = Some pid"

text \<open>The same call with another target, argument vector and environment.\<close>

fun redirect :: "string \<Rightarrow> argv \<Rightarrow> envp \<Rightarrow> request \<Rightarrow> request" where
  "redirect t a' e' (Execve path a e) = Execve t a' e'"
| "redirect t a' e' (Execvpe file a e) = Execvpe t a' e'"
| "redirect t a' e' (ExecvP file search_path a e) = ExecvP t search_path a' e'"
| "redirect t a' e' (Posix_spawn pid path file_actions attrp a e) =
     Posix_spawn pid t file_actions attrp a' e'"
| "redirect t a' e' (Posix_spawnp pid file file_actions attrp a e) =
     Posix_spawnp pid t file_actions attrp a' e'"

text \<open>
  Modelled from the spec: the fixed prefix of a rewritten argument vector, "supervisor
  path, a fixed marker distinguishing supervisor-mode invocation, the session's reporting
  context, the originally requested target (path or bare name plus search semantics)".
\<close>

definition prefix_of :: "conventions \<Rightarrow> session \<Rightarrow> string \<Rightarrow> request \<Rightarrow> argv" where
  "prefix_of cv S spath rq = map Chars (spath # marker cv # report_context cv S @ original cv rq)"

text \<open>
  Modelled from the spec: the rewritten request (steps 3 to 5 of the Executor's
  algorithm): the supervisor as target, the prefix followed by the caller's vector, and
  "original envp merged with the Session's persisted configuration".
\<close>

definition rewrite :: "conventions \<Rightarrow> session \<Rightarrow> string \<Rightarrow> request \<Rightarrow> request" where
  "rewrite cv S spath rq =
     redirect spath (prefix_of cv S spath rq @ argv_of rq) (merge (envp_of rq) (session_env cv S)) rq"

text \<open>
  What the outcome of a call of an original implementation can be: it returns a value, or
  (an exec-shaped call that succeeds) the image of the process is replaced.
\<close>

datatype outcome = Returned int | Image_replaced

text \<open>
  Modelled from the spec: the request the Executor delegates (Executor.h is missing),
  step 2 of its algorithm: "If Session is disabled, or the requested target already is
  the supervisor, delegate directly to the resolved original implementation with the
  caller's arguments unchanged. Otherwise build a new argument vector ...".
\<close>

definition delegated :: "conventions \<Rightarrow> session \<Rightarrow> request \<Rightarrow> request" where
  "delegated cv S rq =
     (if is_valid S
      then (case supervisor S of
              None \<Rightarrow> rq
            | Some spath \<Rightarrow> if target rq = spath then rq else rewrite cv S spath rq)
      else rq)"

text \<open>
  Modelled from the spec: \<^verbatim>\<open>ear::Executor\<close> (Executor.h is missing), steps 2 to 6 of
  its algorithm; step 1, the report of the call's name, is what the entry points of
  \<^verbatim>\<open>lib.cc\<close> do before they call the Executor. "Delegate to the resolved original
  implementation ... Return whatever the delegate returns." "Resolution failure is
  fatal." The call of the original implementation is an event of the trace.
\<close>

definition Executor ::
  "conventions \<Rightarrow> session \<Rightarrow> (string \<Rightarrow> (request \<Rightarrow> outcome) option) \<Rightarrow> request \<Rightarrow> world
     \<Rightarrow> world \<times> (fault + outcome)"
where
  "Executor cv S resolver rq w =
     (case resolver (symbol rq) of
        None \<Rightarrow> (w, Inl Resolution_failed)
      | Some original_impl \<Rightarrow>
          (let d = delegated cv S rq
           in (w\<lparr>trace := trace w @ [Delegate d]\<rparr>, Inr (original_impl d))))"

section \<open>The entry points of lib.cc\<close>

text \<open>
  \<^verbatim>\<open>
  extern "C" void on_load() {
      if (LOADED.exchange(true))
          return;
      const auto environment = ear::environment::current();
      SESSION = ear::Session::from(environment);
      ear::Storage storage(BUFFER, BUFFER + BUFFER_SIZE);
      SESSION.persist(storage);
      SESSION.write_message("on_load");
  }
  \<close>
\<close>

definition on_load :: "conventions \<Rightarrow> world \<Rightarrow> world \<times> (fault + unit)" where
  "on_load cv w =
     (let was_loaded = LOADED w;
          w1 = w\<lparr>LOADED := True\<rparr>
      in if was_loaded then (w1, Inr ())
         else
           (let environment = environ w1;
                w2 = w1\<lparr>SESSION := Session_from cv environment,
                        trace := trace w1 @ [Session_constructed environment]\<rparr>;
                storage = Storage BUFFER_SIZE
            in case Session_persist cv (SESSION w2) storage of
                 Inl f \<Rightarrow> (w2, Inl f)
               | Inr S \<Rightarrow> (write_message ''on_load'' (w2\<lparr>SESSION := S\<rparr>), Inr ())))"

text \<open>
  \<^verbatim>\<open>
  extern "C" void on_unload() {
      if (not LOADED.exchange(false))
          return;
      SESSION.write_message("on_unload");
  }
  \<close>
\<close>

definition on_unload :: "world \<Rightarrow> world \<times> (fault + unit)" where
  "on_unload w =
     (let was_loaded = LOADED w;
          w1 = w\<lparr>LOADED := False\<rparr>
      in if was_loaded then (write_message ''on_unload'' w1, Inr ())
         else (w1, Inr ()))"

text \<open>
  The overriding functions. Each writes its message and returns what
  \<^verbatim>\<open>ear::Executor(SESSION, RESOLVER)\<close> returns; the Executor is the parameter \<open>ex\<close>, so
  that what is said of these functions holds whatever the Executor does.
  \<^verbatim>\<open>
  int execve(const char *path, char *const argv[], char *const envp[]) {
      SESSION.write_message("execve");
      return ear::Executor(SESSION, RESOLVER).execve(path, argv, envp);
  }
  \<close>
\<close>

type_synonym ('f, 'r) executor =
  "session \<Rightarrow> (string \<Rightarrow> 'f option) \<Rightarrow> request \<Rightarrow> world \<Rightarrow> world \<times> (fault + 'r)"

definition execve ::
  "('f, 'r) executor \<Rightarrow> (string \<Rightarrow> 'f option) \<Rightarrow> string \<Rightarrow> argv \<Rightarrow> envp \<Rightarrow> world
     \<Rightarrow> world \<times> (fault + 'r)"
where
  "execve ex dl path a envp w =
     (let w1 = write_message ''execve'' w
      in ex (SESSION w1) (RESOLVER dl) (Execve path a envp) w1)"

text \<open>
  \<^verbatim>\<open>
  int execv(const char *path, char *const argv[]) {
      SESSION.write_message("execv");
      auto envp = const_cast<char *const *>(ear::environment::current());
      return ear::Executor(SESSION, RESOLVER).execve(path, argv, envp);
  }
  \<close>
\<close>

definition execv ::
  "('f, 'r) executor \<Rightarrow> (string \<Rightarrow> 'f option) \<Rightarrow> string \<Rightarrow> argv \<Rightarrow> world
     \<Rightarrow> world \<times> (fault + 'r)"
where
  "execv ex dl path a w =
     (let w1 = write_message ''execv'' w;
          envp = environ w1
      in ex (SESSION w1) (RESOLVER dl) (Execve path a envp) w1)"

text \<open>
  \<^verbatim>\<open>
  int execvpe(const char *file, char *const argv[], char *const envp[]) {
      SESSION.write_message("execvpe");
      return ear::Executor(SESSION, RESOLVER).execvpe(file, argv, envp);
  }
  \<close>
\<close>

definition execvpe ::
  "('f, 'r) executor \<Rightarrow> (string \<Rightarrow> 'f option) \<Rightarrow> string \<Rightarrow> argv \<Rightarrow> envp \<Rightarrow> world
     \<Rightarrow> world \<times> (fault + 'r)"
where
  "execvpe ex dl file a envp w =
     (let w1 = write_message ''execvpe'' w
      in ex (SESSION w1) (RESOLVER dl) (Execvpe file a envp) w1)"

text \<open>
  \<^verbatim>\<open>
  int execvp(const char *file, char *const argv[]) {
      SESSION.write_message("execvp");
      auto envp = const_cast<char *const *>(ear::environment::current());
      return ear::Executor(SESSION, RESOLVER).execvpe(file, argv, envp);
  }
  \<close>
\<close>

definition execvp ::
  "('f, 'r) executor \<Rightarrow> (string \<Rightarrow> 'f option) \<Rightarrow> string \<Rightarrow> argv \<Rightarrow> world
     \<Rightarrow> world \<times> (fault + 'r)"
where
  "execvp ex dl file a w =
     (let w1 = write_message ''execvp'' w;
          envp = environ w1
      in ex (SESSION w1) (RESOLVER dl) (Execvpe file a envp) w1)"

text \<open>
  \<^verbatim>\<open>
  int execvP(const char *file, const char *search_path, char *const argv[]) {
      SESSION.write_message("execvP");
      auto envp = const_cast<char *const *>(ear::environment::current());
      return ear::Executor(SESSION, RESOLVER).execvP(file, search_path, argv, envp);
  }
  \<close>
\<close>

definition execvP ::
  "('f, 'r) executor \<Rightarrow> (string \<Rightarrow> 'f option) \<Rightarrow> string \<Rightarrow> string \<Rightarrow> argv \<Rightarrow> world
     \<Rightarrow> world \<times> (fault + 'r)"
where
  "execvP ex dl file search_path a w =
     (let w1 = write_message ''execvP'' w;
          envp = environ w1
      in ex (SESSION w1) (RESOLVER dl) (ExecvP file search_path a envp) w1)"

text \<open>
  \<^verbatim>\<open>
  int exect(const char *path, char *const argv[], char *const envp[]) {
      SESSION.write_message("exect");
      return ear::Executor(SESSION, RESOLVER).execve(path, argv, envp);
  }
  \<close>
\<close>

definition exect ::
  "('f, 'r) executor \<Rightarrow> (string \<Rightarrow> 'f option) \<Rightarrow> string \<Rightarrow> argv \<Rightarrow> envp \<Rightarrow> world
     \<Rightarrow> world \<times> (fault + 'r)"
where
  "exect ex dl path a envp w =
     (let w1 = write_message ''exect'' w
      in ex (SESSION w1) (RESOLVER dl) (Execve path a envp) w1)"

text \<open>
  \<^verbatim>\<open>
  int execl(const char *path, const char *arg, ...) {
      SESSION.write_message("execl");
      va_list ap;
      va_start(ap, arg);
      const size_t argc = va_length(ap);
      va_end(ap);
      va_start(ap, arg);
      char *argv[argc + 2];
      argv[0] = const_cast<char *>(path);
      va_copy_n(ap, &argv[1], argc);
      va_end(ap);
      auto envp = const_cast<char *const *>(ear::environment::current());
      return ear::Executor(SESSION, RESOLVER).execve(path, argv, envp);
  }
  \<close>
  \<open>va\<close> is what the caller wrote after \<^verbatim>\<open>arg\<close>. The parameter \<open>arg\<close> is used to
  start the traversals and nowhere else.
\<close>

definition execl ::
  "('f, 'r) executor \<Rightarrow> (string \<Rightarrow> 'f option) \<Rightarrow> string \<Rightarrow> cptr \<Rightarrow> varg list \<Rightarrow> world
     \<Rightarrow> world \<times> (fault + 'r)"
where
  "execl ex dl path arg va w =
     (let w1 = write_message ''execl'' w
      in case va_length (va_start va) of
           Inl f \<Rightarrow> (w1, Inl f)
         | Inr (argc, ap) \<Rightarrow>
             (let cells = replicate (argc + 2) None;
                  cells0 = cells[0 := Some (Chars path)]
              in case va_copy_n (va_start va) cells0 1 argc of
                   Inl f \<Rightarrow> (w1, Inl f)
                 | Inr (cells1, ap1) \<Rightarrow>
                     (let envp = environ w1
                      in case decay cells1 of
                           Inl f \<Rightarrow> (w1, Inl f)
                         | Inr a \<Rightarrow> ex (SESSION w1) (RESOLVER dl) (Execve path a envp) w1)))"

text \<open>
  \<^verbatim>\<open>
  int execlp(const char *file, const char *arg, ...) {
      SESSION.write_message("execlp");
      va_list ap;
      va_start(ap, arg);
      const size_t argc = va_length(ap);
      va_end(ap);
      va_start(ap, arg);
      char *argv[argc + 2];
      argv[0] = const_cast<char *>(file);
      va_copy_n(ap, &argv[1], argc);
      va_end(ap);
      auto envp = const_cast<char *const *>(ear::environment::current());
      return ear::Executor(SESSION, RESOLVER).execvpe(file, argv, envp);
  }
  \<close>
\<close>

definition execlp ::
  "('f, 'r) executor \<Rightarrow> (string \<Rightarrow> 'f option) \<Rightarrow> string \<Rightarrow> cptr \<Rightarrow> varg list \<Rightarrow> world
     \<Rightarrow> world \<times> (fault + 'r)"
where
  "execlp ex dl file arg va w =
     (let w1 = write_message ''execlp'' w
      in case va_length (va_start va) of
           Inl f \<Rightarrow> (w1, Inl f)
         | Inr (argc, ap) \<Rightarrow>
             (let cells = replicate (argc + 2) None;
                  cells0 = cells[0 := Some (Chars file)]
              in case va_copy_n (va_start va) cells0 1 argc of
                   Inl f \<Rightarrow> (w1, Inl f)
                 | Inr (cells1, ap1) \<Rightarrow>
                     (let envp = environ w1
                      in case decay cells1 of
                           Inl f \<Rightarrow> (w1, Inl f)
                         | Inr a \<Rightarrow> ex (SESSION w1) (RESOLVER dl) (Execvpe file a envp) w1)))"

text \<open>
  \<^verbatim>\<open>
  // int execle(const char *path, const char *arg, ..., char * const envp[]);
  int execle(const char *path, const char *arg, ...) {
      SESSION.write_message("execle");
      va_list ap;
      va_start(ap, arg);
      const size_t argc = va_length(ap);
      va_end(ap);
      va_start(ap, arg);
      char *argv[argc + 2];
      argv[0] = const_cast<char *>(path);
      va_copy_n(ap, &argv[1], argc);
      char **envp = va_arg(ap, char **);
      va_end(ap);
      return ear::Executor(SESSION, RESOLVER).execve(path, argv, envp);
  }
  \<close>
\<close>

definition execle ::
  "('f, 'r) executor \<Rightarrow> (string \<Rightarrow> 'f option) \<Rightarrow> string \<Rightarrow> cptr \<Rightarrow> varg list \<Rightarrow> world
     \<Rightarrow> world \<times> (fault + 'r)"
where
  "execle ex dl path arg va w =
     (let w1 = write_message ''execle'' w
      in case va_length (va_start va) of
           Inl f \<Rightarrow> (w1, Inl f)
         | Inr (argc, ap) \<Rightarrow>
             (let cells = replicate (argc + 2) None;
                  cells0 = cells[0 := Some (Chars path)]
              in case va_copy_n (va_start va) cells0 1 argc of
                   Inl f \<Rightarrow> (w1, Inl f)
                 | Inr (cells1, ap1) \<Rightarrow>
                     (case va_arg_envp ap1 of
                        Inl f \<Rightarrow> (w1, Inl f)
                      | Inr (envp, ap2) \<Rightarrow>
                          (case decay cells1 of
                             Inl f \<Rightarrow> (w1, Inl f)
                           | Inr a \<Rightarrow> ex (SESSION w1) (RESOLVER dl) (Execve path a envp) w1))))"

text \<open>
  \<^verbatim>\<open>
  int posix_spawn(pid_t *pid, const char *path,
                  const posix_spawn_file_actions_t *file_actions,
                  const posix_spawnattr_t *attrp,
                  char *const argv[], char *const envp[]) {
      SESSION.write_message("posix_spawn");
      return ear::Executor(SESSION, RESOLVER).posix_spawn(pid, path, file_actions, attrp, argv, envp);
  }
  \<close>
  and \<^verbatim>\<open>posix_spawnp\<close>, the same with \<^verbatim>\<open>file\<close> for \<^verbatim>\<open>path\<close>.
\<close>

definition posix_spawn ::
  "('f, 'r) executor \<Rightarrow> (string \<Rightarrow> 'f option) \<Rightarrow> nat \<Rightarrow> string \<Rightarrow> nat \<Rightarrow> nat \<Rightarrow> argv \<Rightarrow> envp
     \<Rightarrow> world \<Rightarrow> world \<times> (fault + 'r)"
where
  "posix_spawn ex dl pid path file_actions attrp a envp w =
     (let w1 = write_message ''posix_spawn'' w
      in ex (SESSION w1) (RESOLVER dl) (Posix_spawn pid path file_actions attrp a envp) w1)"

definition posix_spawnp ::
  "('f, 'r) executor \<Rightarrow> (string \<Rightarrow> 'f option) \<Rightarrow> nat \<Rightarrow> string \<Rightarrow> nat \<Rightarrow> nat \<Rightarrow> argv \<Rightarrow> envp
     \<Rightarrow> world \<Rightarrow> world \<times> (fault + 'r)"
where
  "posix_spawnp ex dl pid file file_actions attrp a envp w =
     (let w1 = write_message ''posix_spawnp'' w
      in ex (SESSION w1) (RESOLVER dl) (Posix_spawnp pid file file_actions attrp a envp) w1)"

section \<open>Calls of the overridden operations\<close>

text \<open>
  A call of one of the eleven overridden operations with its arguments, as a host program
  makes it, and the function the dynamic linker binds it to.
\<close>

datatype call =
    Call_execve string argv envp
  | Call_execv string argv
  | Call_execvpe string argv envp
  | Call_execvp string argv
  | Call_execvP string string argv
  | Call_exect string argv envp
  | Call_execl string cptr "varg list"
  | Call_execlp string cptr "varg list"
  | Call_execle string cptr "varg list"
  | Call_posix_spawn nat string nat nat argv envp
  | Call_posix_spawnp nat string nat nat argv envp

fun intercept ::
  "('f, 'r) executor \<Rightarrow> (string \<Rightarrow> 'f option) \<Rightarrow> call \<Rightarrow> world \<Rightarrow> world \<times> (fault + 'r)"
where
  "intercept ex dl (Call_execve path a envp) w = execve ex dl path a envp w"
| "intercept ex dl (Call_execv path a) w = execv ex dl path a w"
| "intercept ex dl (Call_execvpe file a envp) w = execvpe ex dl file a envp w"
| "intercept ex dl (Call_execvp file a) w = execvp ex dl file a w"
| "intercept ex dl (Call_execvP file search_path a) w = execvP ex dl file search_path a w"
| "intercept ex dl (Call_exect path a envp) w = exect ex dl path a envp w"
| "intercept ex dl (Call_execl path arg va) w = execl ex dl path arg va w"
| "intercept ex dl (Call_execlp file arg va) w = execlp ex dl file arg va w"
| "intercept ex dl (Call_execle path arg va) w = execle ex dl path arg va w"
| "intercept ex dl (Call_posix_spawn pid path file_actions attrp a envp) w =
     posix_spawn ex dl pid path file_actions attrp a envp w"
| "intercept ex dl (Call_posix_spawnp pid file file_actions attrp a envp) w =
     posix_spawnp ex dl pid file file_actions attrp a envp w"

fun name_of :: "call \<Rightarrow> string" where
  "name_of (Call_execve path a envp) = ''execve''"
| "name_of (Call_execv path a) = ''execv''"
| "name_of (Call_execvpe file a envp) = ''execvpe''"
| "name_of (Call_execvp file a) = ''execvp''"
| "name_of (Call_execvP file search_path a) = ''execvP''"
| "name_of (Call_exect path a envp) = ''exect''"
| "name_of (Call_execl path arg va) = ''execl''"
| "name_of (Call_execlp file arg va) = ''execlp''"
| "name_of (Call_execle path arg va) = ''execle''"
| "name_of (Call_posix_spawn pid path file_actions attrp a envp) = ''posix_spawn''"
| "name_of (Call_posix_spawnp pid file file_actions attrp a envp) = ''posix_spawnp''"

text \<open>
  The request an entry point hands to the Executor is read off by running the entry point
  with an Executor that does nothing but return its request.
\<close>

definition observe :: "(unit, request) executor" where
  "observe S resolver rq w = (w, Inr rq)"

definition handed :: "call \<Rightarrow> world \<Rightarrow> fault + request" where
  "handed c w = snd (intercept observe (\<lambda>name. None) c w)"

text \<open>
  What the caller of an overridden operation supplies as the argument vector of the new
  program, by the contract of the standard operation: the vector itself, or, for the
  variadic operations, \<^verbatim>\<open>arg\<close> followed by the listed arguments up to the null pointer.
\<close>

fun listed :: "varg list \<Rightarrow> argv" where
  "listed [] = []"
| "listed (Env e # rest) = []"
| "listed (Arg Null # rest) = [Null]"
| "listed (Arg (Chars s) # rest) = Chars s # listed rest"

fun caller_argv :: "call \<Rightarrow> argv" where
  "caller_argv (Call_execve path a envp) = a"
| "caller_argv (Call_execv path a) = a"
| "caller_argv (Call_execvpe file a envp) = a"
| "caller_argv (Call_execvp file a) = a"
| "caller_argv (Call_execvP file search_path a) = a"
| "caller_argv (Call_exect path a envp) = a"
| "caller_argv (Call_execl path arg va) = arg # listed va"
| "caller_argv (Call_execlp file arg va) = arg # listed va"
| "caller_argv (Call_execle path arg va) = arg # listed va"
| "caller_argv (Call_posix_spawn pid path file_actions attrp a envp) = a"
| "caller_argv (Call_posix_spawnp pid file file_actions attrp a envp) = a"

fun is_variadic :: "call \<Rightarrow> bool" where
  "is_variadic (Call_execl path arg va) = True"
| "is_variadic (Call_execlp file arg va) = True"
| "is_variadic (Call_execle path arg va) = True"
| "is_variadic c = False"

text \<open>
  The number the first traversal of a variadic list counts, and the number of cells of the
  argument vector an entry point hands to the Executor.
\<close>

definition counted :: "varg list \<Rightarrow> fault + nat" where
  "counted va = map_sum id fst (va_length (va_start va))"

definition vector_length :: "call \<Rightarrow> world \<Rightarrow> fault + nat" where
  "vector_length c w = map_sum id (length \<circ> argv_of) (handed c w)"

definition handed_envp :: "call \<Rightarrow> world \<Rightarrow> fault + envp" where
  "handed_envp c w = map_sum id envp_of (handed c w)"

text \<open>
  The operations that, in the words of the specification's claim, are the only ones to
  forward an environment supplied by the caller.
\<close>

definition claimed_forwarders :: "string list" where
  "claimed_forwarders = [''execve'', ''execvpe'', ''execle'', ''posix_spawn'', ''posix_spawnp'']"

section \<open>The life of a process\<close>

text \<open>
  \<^verbatim>\<open>std::atomic<bool> LOADED(false); ear::Session SESSION;\<close> A process starts with
  the library not loaded and a reporting destination that takes writes (the statements
  about an arbitrary world cover a destination that does not); the hooks can then be
  invoked in any order, any number of times. A fatal condition ends the process.
\<close>

definition initial :: "envp \<Rightarrow> world" where
  "initial environment =
     \<lparr> LOADED = False, SESSION = no_session, environ = environment, trace = [],
       writable = True \<rparr>"




fun is_construction :: "event \<Rightarrow> bool" where
  "is_construction (Session_constructed e) = True"
| "is_construction (Write_message name) = False"
| "is_construction (Record name) = False"
| "is_construction (Delegate d) = False"

definition constructions :: "world \<Rightarrow> nat" where
  "constructions w = length (filter is_construction (trace w))"

definition messages :: "string \<Rightarrow> world \<Rightarrow> nat" where
  "messages name w = count_list (trace w) (Write_message name)"

text \<open>The records with a given name that have reached the destination.\<close>

definition records :: "string \<Rightarrow> world \<Rightarrow> nat" where
  "records name w = count_list (trace w) (Record name)"


section \<open>A concrete setting for the examples\<close>

definition example_conventions :: conventions where
  "example_conventions =
     \<lparr> key_destination = ''DESTINATION'',
       key_verbose = ''VERBOSE'',
       key_supervisor = ''SUPERVISOR'',
       key_library = ''LIBRARY'',
       verbose_text = ''1'',
       marker = ''--supervise'',
       report_context = (\<lambda>S. case destination S of None \<Rightarrow> [] | Some d \<Rightarrow> [''--destination'', d]),
       original = (\<lambda>rq. [''--file'', target rq]) \<rparr>"

definition example_environ :: envp where
  "example_environ =
     [''PATH=/bin'', ''DESTINATION=/tmp/sink'', ''SUPERVISOR=/bin/true'', ''LIBRARY=/lib/libexec.so'']"

definition bare_environ :: envp where
  "bare_environ = [''PATH=/bin'']"

text \<open>
  Original implementations that fail with \<open>-1\<close>, as an exec-shaped operation that returns
  does, and a spawn that succeeds with \<open>0\<close>.
\<close>

definition example_dl :: "string \<Rightarrow> (request \<Rightarrow> outcome) option" where
  "example_dl name =
     (if name = ''execve'' then Some (\<lambda>rq. Returned (- 1))
      else if name = ''execvpe'' then Some (\<lambda>rq. Returned (- 1))
      else if name = ''posix_spawn'' then Some (\<lambda>rq. Returned 0)
      else None)"

text \<open>The world after the library was loaded in a process with \<open>example_environ\<close>.\<close>

definition enabled_world :: world where
  "enabled_world = fst (on_load example_conventions (initial example_environ))"

definition disabled_world :: world where
  "disabled_world = fst (on_load example_conventions (initial bare_environ))"

text \<open>\<^verbatim>\<open>execl("/bin/ls", "ls", "-la", nullptr)\<close>\<close>

definition ls_call :: call where
  "ls_call = Call_execl ''/bin/ls'' (Chars ''ls'') [Arg (Chars ''-la''), Arg Null]"

section \<open>The two traversals of a variadic list\<close>

text \<open>
  A well-formed variadic part has strings \<open>ss\<close>, the null pointer, and whatever follows it
  (\<open>rest\<close>: nothing, or the environment of \<^verbatim>\<open>execle\<close>). The count is the number of the
  strings and stops behind the null pointer.
\<close>

lemma va_length_loop_listed:
  "va_length_loop (map (Arg \<circ> Chars) ss @ Arg Null # rest) n = Inr (n + length ss, rest)"
  by (induction ss arbitrary: n) auto

lemma va_length_listed:
  "va_length (va_start (map (Arg \<circ> Chars) ss @ Arg Null # rest)) = Inr (length ss, rest)"
  by (simp add: va_length_def va_start_def va_length_loop_listed)

declare va_copy_n_loop.simps [simp del]

text \<open>
  The copy writes the strings and the null pointer into the cells from \<open>base + idx\<close> on
  and leaves the other cells alone; it stops behind the null pointer too.
\<close>

lemma va_copy_n_loop_listed:
  "base + idx + length ss < length cells \<Longrightarrow>
   va_copy_n_loop (map (Arg \<circ> Chars) ss @ Arg Null # rest) cells base (idx + length ss) idx =
     Inr (take (base + idx) cells @ map (Some \<circ> Chars) ss @
          Some Null # drop (Suc (base + idx + length ss)) cells, rest)"
proof (induction ss arbitrary: cells idx)
  case Nil
  have "va_copy_n_loop rest (cells[base + idx := Some Null]) base idx (Suc idx) =
        Inr (cells[base + idx := Some Null], rest)"
    by (subst va_copy_n_loop.simps) simp
  then show ?case
    using Nil by (subst va_copy_n_loop.simps) (simp add: upd_conv_take_nth_drop)
next
  case (Cons s ss)
  let ?cells = "cells[base + idx := Some (Chars s)]"
  have "va_copy_n_loop (map (Arg \<circ> Chars) ss @ Arg Null # rest) ?cells
          base (Suc idx + length ss) (Suc idx) =
        Inr (take (base + Suc idx) ?cells @ map (Some \<circ> Chars) ss @
             Some Null # drop (Suc (base + Suc idx + length ss)) ?cells, rest)"
    using Cons.prems by (intro Cons.IH) simp
  moreover have "take (base + Suc idx) ?cells = take (base + idx) cells @ [Some (Chars s)]"
    using Cons.prems by (simp add: take_Suc_conv_app_nth)
  ultimately show ?case
    using Cons.prems by (subst va_copy_n_loop.simps) simp
qed

lemma decay_written: "decay (map Some ps) = Inr ps"
  by (induction ps) auto

lemma decay_listed:
  "decay (Some p # map (Some \<circ> Chars) ss @ [Some Null]) = Inr (p # map Chars ss @ [Null])"
  using decay_written [of "p # map Chars ss @ [Null]"] by simp

lemma va_copy_n_listed:
  "va_copy_n (va_start (map (Arg \<circ> Chars) ss @ Arg Null # rest))
     ((replicate (length ss + 2) None)[0 := Some p]) 1 (length ss) =
   Inr (Some p # map (Some \<circ> Chars) ss @ [Some Null], rest)"
proof -
  let ?cells = "(replicate (length ss + 2) None)[0 := Some p]"
  have "va_copy_n_loop (map (Arg \<circ> Chars) ss @ Arg Null # rest) ?cells 1 (0 + length ss) 0 =
        Inr (take (1 + 0) ?cells @ map (Some \<circ> Chars) ss @
             Some Null # drop (Suc (1 + 0 + length ss)) ?cells, rest)"
    by (rule va_copy_n_loop_listed) simp
  then show ?thesis
    by (simp add: va_copy_n_def va_start_def)
qed

lemma va_copy_n_local:
  "va_copy_n (va_start (map (Arg \<circ> Chars) ss @ Arg Null # rest))
     (Some p # None # replicate (length ss) None) (Suc 0) (length ss) =
   Inr (Some p # map (Some \<circ> Chars) ss @ [Some Null], rest)"
  using va_copy_n_listed [of ss rest p] by simp

section \<open>What the variadic entry points hand to the Executor\<close>

lemma execl_listed:
  "execl ex dl path arg (map (Arg \<circ> Chars) ss @ Arg Null # rest) w =
     ex (SESSION w) (RESOLVER dl) (Execve path (Chars path # map Chars ss @ [Null]) (environ w))
        (write_message ''execl'' w)"
  by (simp add: execl_def va_length_listed va_copy_n_local decay_listed write_message_def
      del: decay.simps)

lemma execlp_listed:
  "execlp ex dl file arg (map (Arg \<circ> Chars) ss @ Arg Null # rest) w =
     ex (SESSION w) (RESOLVER dl) (Execvpe file (Chars file # map Chars ss @ [Null]) (environ w))
        (write_message ''execlp'' w)"
  by (simp add: execlp_def va_length_listed va_copy_n_local decay_listed write_message_def
      del: decay.simps)

lemma execle_listed:
  "execle ex dl path arg (map (Arg \<circ> Chars) ss @ Arg Null # Env e # rest) w =
     ex (SESSION w) (RESOLVER dl) (Execve path (Chars path # map Chars ss @ [Null]) e)
        (write_message ''execle'' w)"
  by (simp add: execle_def va_length_listed va_copy_n_local decay_listed write_message_def
      del: decay.simps)

text \<open>
  Every entry point writes its message and then either stops on a fault of its own
  marshalling or is the Executor, whatever that is, applied to the request it hands over.
\<close>

lemma intercept_handed:
  "intercept ex dl c w =
     (case handed c w of
        Inl f \<Rightarrow> (write_message (name_of c) w, Inl f)
      | Inr rq \<Rightarrow> ex (SESSION w) (RESOLVER dl) rq (write_message (name_of c) w))"
  by (cases c)
     (simp_all add: handed_def observe_def execve_def execv_def execvpe_def execvp_def execvP_def
        exect_def execl_def execlp_def execle_def posix_spawn_def posix_spawnp_def
        write_message_def Let_def split: sum.splits prod.splits)

lemma handed_execl:
  "handed (Call_execl path arg (map (Arg \<circ> Chars) ss @ Arg Null # rest)) w =
     Inr (Execve path (Chars path # map Chars ss @ [Null]) (environ w))"
  by (simp add: handed_def execl_listed observe_def)

lemma handed_execlp:
  "handed (Call_execlp file arg (map (Arg \<circ> Chars) ss @ Arg Null # rest)) w =
     Inr (Execvpe file (Chars file # map Chars ss @ [Null]) (environ w))"
  by (simp add: handed_def execlp_listed observe_def)

lemma handed_execle:
  "handed (Call_execle path arg (map (Arg \<circ> Chars) ss @ Arg Null # Env e # rest)) w =
     Inr (Execve path (Chars path # map Chars ss @ [Null]) e)"
  by (simp add: handed_def execle_listed observe_def)

text \<open>
  A variadic part without the null pointer, and a call of \<^verbatim>\<open>execle\<close> without the
  environment behind it, make the traversal read past the arguments: undefined behaviour
  in the C++, a fault of the model, after the message was written.
\<close>

lemma va_length_loop_unterminated:
  "va_length_loop (map (Arg \<circ> Chars) ss) n = Inl Va_arg_past_end"
  by (induction ss arbitrary: n) auto

lemma handed_unterminated:
  "handed (Call_execl path arg (map (Arg \<circ> Chars) ss)) w = Inl Va_arg_past_end"
  "handed (Call_execlp path arg (map (Arg \<circ> Chars) ss)) w = Inl Va_arg_past_end"
  "handed (Call_execle path arg (map (Arg \<circ> Chars) ss)) w = Inl Va_arg_past_end"
  by (simp_all add: handed_def execl_def execlp_def execle_def va_length_def va_start_def
        va_length_loop_unterminated)

lemma handed_execle_without_environment:
  "handed (Call_execle path arg (map (Arg \<circ> Chars) ss @ [Arg Null])) w = Inl Va_arg_past_end"
  by (simp add: handed_def execle_def va_length_listed va_copy_n_local)

text \<open>
  C9. For \<^verbatim>\<open>execl\<close>, \<^verbatim>\<open>execlp\<close> and \<^verbatim>\<open>execle\<close>, called with the strings \<open>ss\<close> and
  the null pointer after \<^verbatim>\<open>arg\<close>, the argument vector handed to the Executor (whatever
  the Executor is) has the path, respectively the file, as element 0, then the strings
  \<open>ss\<close> in order, then the null pointer in the cell after the last of them. The first
  named argument \<^verbatim>\<open>arg\<close> is no part of it: the right-hand sides do not mention it, and
  a call with another \<^verbatim>\<open>arg\<close> is the same call.
\<close>

theorem variadic_argument_vector:
  "execl ex dl path arg (map (Arg \<circ> Chars) ss @ Arg Null # rest) w =
     ex (SESSION w) (RESOLVER dl) (Execve path (Chars path # map Chars ss @ [Null]) (environ w))
        (write_message ''execl'' w) \<and>
   execlp ex dl path arg (map (Arg \<circ> Chars) ss @ Arg Null # rest) w =
     ex (SESSION w) (RESOLVER dl) (Execvpe path (Chars path # map Chars ss @ [Null]) (environ w))
        (write_message ''execlp'' w) \<and>
   execle ex dl path arg (map (Arg \<circ> Chars) ss @ Arg Null # Env e # rest) w =
     ex (SESSION w) (RESOLVER dl) (Execve path (Chars path # map Chars ss @ [Null]) e)
        (write_message ''execle'' w) \<and>
   execl ex dl path arg va w = execl ex dl path arg' va w \<and>
   execlp ex dl path arg va w = execlp ex dl path arg' va w \<and>
   execle ex dl path arg va w = execle ex dl path arg' va w"
  by (simp add: execl_listed execlp_listed execle_listed)
     (simp add: execl_def execlp_def execle_def)

theorem variadic_argument_vector_witness:
  "execl observe (\<lambda>name. None) ''/bin/ls'' (Chars ''ls'') [Arg (Chars ''-la''), Arg Null]
     (initial bare_environ) =
   (write_message ''execl'' (initial bare_environ),
    Inr (Execve ''/bin/ls'' [Chars ''/bin/ls'', Chars ''-la'', Null] bare_environ))"
  using variadic_argument_vector
    [where ex = observe and dl = "\<lambda>name. None" and path = "''/bin/ls''" and arg = "Chars ''ls''"
       and ss = "[''-la'']" and rest = "[]" and w = "initial bare_environ"]
  by (simp add: observe_def initial_def)

text \<open>
  C4. For a call of \<^verbatim>\<open>execle\<close> that ends with the null pointer and an environment
  \<open>e\<close>, the environment handed to the Executor is \<open>e\<close>, the argument read right after the
  null pointer, whatever the environment of the process is; and \<open>e\<close> is not counted as an
  argument: the count is the number of the strings, and the environment is still unread
  after it.
\<close>

theorem execle_positional_environment:
  "execle ex dl path arg (map (Arg \<circ> Chars) ss @ Arg Null # Env e # rest) w =
     ex (SESSION w) (RESOLVER dl) (Execve path (Chars path # map Chars ss @ [Null]) e)
        (write_message ''execle'' w) \<and>
   handed_envp (Call_execle path arg (map (Arg \<circ> Chars) ss @ Arg Null # Env e # rest)) w = Inr e \<and>
   va_length (va_start (map (Arg \<circ> Chars) ss @ Arg Null # Env e # rest)) =
     Inr (length ss, Env e # rest) \<and>
   counted (map (Arg \<circ> Chars) ss @ Arg Null # Env e # rest) = Inr (length ss)"
  by (simp add: execle_listed handed_envp_def handed_execle va_length_listed counted_def)

theorem execle_positional_environment_witness:
  "handed_envp (Call_execle ''/bin/ls'' (Chars ''ls'') [Arg (Chars ''-la''), Arg Null, Env [''A=1'']])
     (initial bare_environ) = Inr [''A=1''] \<and>
   environ (initial bare_environ) = [''PATH=/bin''] \<and>
   counted [Arg (Chars ''-la''), Arg Null, Env [''A=1'']] = Inr 1"
  using execle_positional_environment
    [where ex = observe and dl = "\<lambda>name. None" and path = "''/bin/ls''" and arg = "Chars ''ls''"
       and ss = "[''-la'']" and e = "[''A=1'']" and rest = "[]" and w = "initial bare_environ"]
  by (simp add: initial_def bare_environ_def)

text \<open>
  C3, as stated, fails: for \<^verbatim>\<open>execl("/bin/ls", "ls", nullptr)\<close> the count of the
  trailing arguments is 0 and the constructed vector has 2 cells (the path and the null
  pointer).
\<close>

theorem vector_longer_than_count:
  "counted [Arg Null] = Inr 0 \<and>
   vector_length (Call_execl ''/bin/ls'' (Chars ''ls'') [Arg Null]) (initial bare_environ) = Inr 2"
  using handed_execl [of "''/bin/ls''" "Chars ''ls''" "[]" "[]" "initial bare_environ"]
  by (simp add: counted_def vector_length_def va_length_def va_start_def)

text \<open>
  C3, amended. For every variadic call with the strings \<open>ss\<close> (none, one or more) before
  the null pointer, the list is traversed twice, each time from its start: the first
  traversal counts \<open>length ss\<close> and stops behind the null pointer; the second copies exactly
  the strings and the null pointer into the cells after cell 0 and stops at the same place.
  The constructed vector has \<open>length ss + 2\<close> cells: element 0, the counted arguments, and
  the terminator.
\<close>

theorem variadic_count_then_copy:
  "va_length (va_start (map (Arg \<circ> Chars) ss @ Arg Null # rest)) = Inr (length ss, rest) \<and>
   counted (map (Arg \<circ> Chars) ss @ Arg Null # rest) = Inr (length ss) \<and>
   va_copy_n (va_start (map (Arg \<circ> Chars) ss @ Arg Null # rest))
     ((replicate (length ss + 2) None)[0 := Some p]) 1 (length ss) =
     Inr (Some p # map (Some \<circ> Chars) ss @ [Some Null], rest) \<and>
   vector_length (Call_execl path arg (map (Arg \<circ> Chars) ss @ Arg Null # rest)) w =
     Inr (length ss + 2) \<and>
   vector_length (Call_execlp path arg (map (Arg \<circ> Chars) ss @ Arg Null # rest)) w =
     Inr (length ss + 2) \<and>
   vector_length (Call_execle path arg (map (Arg \<circ> Chars) ss @ Arg Null # Env e # rest)) w =
     Inr (length ss + 2)"
  by (simp add: va_length_listed counted_def va_copy_n_local vector_length_def
        handed_execl handed_execlp handed_execle)

theorem variadic_count_then_copy_witness:
  "counted [Arg (Chars ''-l''), Arg (Chars ''-a''), Arg Null] = Inr 2 \<and>
   vector_length (Call_execlp ''ls'' (Chars ''ls'') [Arg (Chars ''-l''), Arg (Chars ''-a''), Arg Null])
     (initial bare_environ) = Inr 4"
  using variadic_count_then_copy
    [where ss = "[''-l'', ''-a'']" and rest = "[]" and path = "''ls''" and arg = "Chars ''ls''"
       and w = "initial bare_environ"]
  by simp

section \<open>The environment handed to the Executor\<close>

lemma handed_vectors:
  "handed (Call_execve path a envp) w = Inr (Execve path a envp)"
  "handed (Call_execv path a) w = Inr (Execve path a (environ w))"
  "handed (Call_execvpe file a envp) w = Inr (Execvpe file a envp)"
  "handed (Call_execvp file a) w = Inr (Execvpe file a (environ w))"
  "handed (Call_execvP file search_path a) w = Inr (ExecvP file search_path a (environ w))"
  "handed (Call_exect path a envp) w = Inr (Execve path a envp)"
  "handed (Call_posix_spawn pid path file_actions attrp a envp) w =
     Inr (Posix_spawn pid path file_actions attrp a envp)"
  "handed (Call_posix_spawnp pid file file_actions attrp a envp) w =
     Inr (Posix_spawnp pid file file_actions attrp a envp)"
  by (simp_all add: handed_def observe_def execve_def execv_def execvpe_def execvp_def
        execvP_def exect_def posix_spawn_def posix_spawnp_def write_message_def)

text \<open>
  C10, as stated, fails: \<^verbatim>\<open>exect\<close> is not among the operations the claim lists as the
  only ones to forward the caller's environment, and it forwards it: the Executor gets
  \<^verbatim>\<open>A=1\<close> in a process whose environment is \<^verbatim>\<open>PATH=/bin\<close>.
\<close>

theorem exect_forwards_environment:
  "name_of (Call_exect ''/bin/ls'' [Chars ''ls'', Null] [''A=1'']) \<notin> set claimed_forwarders \<and>
   handed_envp (Call_exect ''/bin/ls'' [Chars ''ls'', Null] [''A=1'']) (initial bare_environ) =
     Inr [''A=1''] \<and>
   environ (initial bare_environ) = [''PATH=/bin'']"
  by (simp add: claimed_forwarders_def handed_envp_def handed_vectors initial_def bare_environ_def)

text \<open>
  C10, amended. \<^verbatim>\<open>execv\<close>, \<^verbatim>\<open>execvp\<close>, \<^verbatim>\<open>execvP\<close>, \<^verbatim>\<open>execl\<close> and \<^verbatim>\<open>execlp\<close>
  hand the Executor the environment of the process as it is when they are called;
  \<^verbatim>\<open>execve\<close>, \<^verbatim>\<open>execvpe\<close>, \<^verbatim>\<open>exect\<close>, \<^verbatim>\<open>execle\<close>, \<^verbatim>\<open>posix_spawn\<close> and
  \<^verbatim>\<open>posix_spawnp\<close> hand it the environment the caller supplied.
\<close>

theorem environment_by_operation:
  "handed_envp (Call_execv path a) w = Inr (environ w) \<and>
   handed_envp (Call_execvp path a) w = Inr (environ w) \<and>
   handed_envp (Call_execvP path search_path a) w = Inr (environ w) \<and>
   handed_envp (Call_execl path arg (map (Arg \<circ> Chars) ss @ Arg Null # rest)) w = Inr (environ w) \<and>
   handed_envp (Call_execlp path arg (map (Arg \<circ> Chars) ss @ Arg Null # rest)) w = Inr (environ w) \<and>
   handed_envp (Call_execve path a envp) w = Inr envp \<and>
   handed_envp (Call_execvpe path a envp) w = Inr envp \<and>
   handed_envp (Call_exect path a envp) w = Inr envp \<and>
   handed_envp (Call_execle path arg (map (Arg \<circ> Chars) ss @ Arg Null # Env envp # rest)) w =
     Inr envp \<and>
   handed_envp (Call_posix_spawn pid path file_actions attrp a envp) w = Inr envp \<and>
   handed_envp (Call_posix_spawnp pid path file_actions attrp a envp) w = Inr envp"
  by (simp add: handed_envp_def handed_vectors handed_execl handed_execlp handed_execle)

theorem environment_by_operation_witness:
  "handed_envp (Call_execvp ''ls'' [Chars ''ls'', Null]) (initial bare_environ) = Inr [''PATH=/bin''] \<and>
   handed_envp (Call_execvpe ''ls'' [Chars ''ls'', Null] [''A=1'']) (initial bare_environ) = Inr [''A=1'']"
  using environment_by_operation
    [where path = "''ls''" and a = "[Chars ''ls'', Null]" and envp = "[''A=1'']"
       and w = "initial bare_environ"]
  by (simp add: initial_def bare_environ_def)

section \<open>The load and unload hooks\<close>



lemma on_load_fresh:
  "\<not> LOADED w \<Longrightarrow>
   LOADED (fst (on_load cv w)) \<and>
   constructions (fst (on_load cv w)) = Suc (constructions w) \<and>
   messages ''on_unload'' (fst (on_load cv w)) = messages ''on_unload'' w"
  by (simp add: on_load_def Let_def constructions_def messages_def write_message_def
      split: sum.splits)

lemma on_load_trace:
  "\<not> LOADED w \<Longrightarrow> snd (on_load cv w) = Inr () \<Longrightarrow>
   trace (fst (on_load cv w)) =
     trace w @ Session_constructed (environ w) # Write_message ''on_load'' #
       (if is_valid (Session_from cv (environ w)) \<and> writable w then [Record ''on_load''] else [])"
  by (auto simp: on_load_def Let_def write_message_def reporting_def Session_persist_def
      split: sum.splits)

lemma on_unload_loaded:
  "LOADED w \<Longrightarrow>
   \<not> LOADED (fst (on_unload w)) \<and>
   trace (fst (on_unload w)) =
     trace w @ Write_message ''on_unload'' # (if reporting w then [Record ''on_unload''] else []) \<and>
   snd (on_unload w) = Inr ()"
  by (simp add: on_unload_def write_message_def reporting_def)











lemma enabled_world_LOADED: "LOADED enabled_world"
  using on_load_fresh [of "initial example_environ" example_conventions]
  by (simp add: enabled_world_def initial_def)


section \<open>The Executor\<close>

lemma RESOLVER_eq: "RESOLVER dl = dl"
  by (simp add: RESOLVER_def dynamic_linker_def fun_eq_iff)

lemma Executor_resolved:
  "resolver (symbol rq) = Some impl \<Longrightarrow>
   Executor cv S resolver rq w =
     (w\<lparr>trace := trace w @ [Delegate (delegated cv S rq)]\<rparr>, Inr (impl (delegated cv S rq)))"
  by (simp add: Executor_def Let_def)

lemma Executor_unresolved:
  "resolver (symbol rq) = None \<Longrightarrow> Executor cv S resolver rq w = (w, Inl Resolution_failed)"
  by (simp add: Executor_def)

lemma delegated_pass_through: "\<not> is_valid S \<Longrightarrow> delegated cv S rq = rq"
  by (simp add: delegated_def)

lemma delegated_supervisor_itself: "supervisor S = Some (target rq) \<Longrightarrow> delegated cv S rq = rq"
  by (simp add: delegated_def)

lemma delegated_rewrite:
  "is_valid S \<Longrightarrow> supervisor S = Some spath \<Longrightarrow> target rq \<noteq> spath \<Longrightarrow>
   delegated cv S rq = rewrite cv S spath rq"
  by (simp add: delegated_def)

lemma rewrite_shape:
  "target (rewrite cv S spath rq) = spath \<and>
   argv_of (rewrite cv S spath rq) = prefix_of cv S spath rq @ argv_of rq \<and>
   envp_of (rewrite cv S spath rq) = merge (envp_of rq) (session_env cv S) \<and>
   symbol (rewrite cv S spath rq) = symbol rq \<and>
   pid_of (rewrite cv S spath rq) = pid_of rq"
  by (cases rq) (simp_all add: rewrite_def)

lemma delegated_same_operation:
  "symbol (delegated cv S rq) = symbol rq \<and> pid_of (delegated cv S rq) = pid_of rq"
  by (simp add: delegated_def rewrite_shape split: option.splits)

lemma Executor_result:
  "Executor cv S resolver rq w = (w', Inr v) \<Longrightarrow>
   \<exists>impl. resolver (symbol rq) = Some impl \<and>
     w' = w\<lparr>trace := trace w @ [Delegate (delegated cv S rq)]\<rparr> \<and> v = impl (delegated cv S rq)"
  by (cases "resolver (symbol rq)") (auto simp: Executor_def Let_def)

lemma Executor_trace:
  "trace (fst (Executor cv S resolver rq w)) = trace w \<or>
   trace (fst (Executor cv S resolver rq w)) = trace w @ [Delegate (delegated cv S rq)]"
  by (cases "resolver (symbol rq)") (simp_all add: Executor_def Let_def)

lemma handed_vector:
  "\<not> is_variadic c \<Longrightarrow> \<exists>rq. handed c w = Inr rq \<and> argv_of rq = caller_argv c"
  by (cases c) (simp_all add: handed_vectors)

text \<open>
  A session is disabled as soon as one mandatory key is missing from the environment.
\<close>

lemma missing_key_disables:
  "env_lookup (key_destination cv) environment = None \<or>
   env_lookup (key_supervisor cv) environment = None \<or>
   env_lookup (key_library cv) environment = None \<Longrightarrow>
   \<not> is_valid (Session_from cv environment)"
  by (auto simp: is_valid_def Session_from_def split: option.splits)

lemma enabled_world_eq:
  "enabled_world =
     \<lparr> LOADED = True,
       SESSION = \<lparr> destination = Some ''/tmp/sink'', verbose = False,
                   supervisor = Some ''/bin/true'', library = Some ''/lib/libexec.so'' \<rparr>,
       environ = example_environ,
       trace = [Session_constructed example_environ, Write_message ''on_load'', Record ''on_load''],
       writable = True \<rparr>"
  by (simp add: enabled_world_def initial_def on_load_def Let_def write_message_def
       Session_persist_def Session_from_def example_conventions_def example_environ_def session_env_def
       entry_def Storage_def store_def BUFFER_SIZE_def no_session_def reporting_def is_valid_def)

lemma disabled_world_eq:
  "disabled_world =
     \<lparr> LOADED = True, SESSION = no_session, environ = bare_environ,
       trace = [Session_constructed bare_environ, Write_message ''on_load''],
       writable = True \<rparr>"
  by (simp add: disabled_world_def initial_def on_load_def Let_def write_message_def
       Session_persist_def Session_from_def example_conventions_def bare_environ_def session_env_def
       entry_def Storage_def store_def BUFFER_SIZE_def no_session_def reporting_def is_valid_def)

lemma disabled_world_not_valid: "\<not> is_valid (SESSION disabled_world)"
  by (simp add: disabled_world_eq is_valid_def no_session_def)

lemma enabled_world_reporting: "reporting enabled_world"
  by (simp add: enabled_world_eq reporting_def is_valid_def)

lemma disabled_world_not_reporting: "\<not> reporting disabled_world"
  by (simp add: disabled_world_eq reporting_def is_valid_def no_session_def)

lemma ls_call_handed:
  "handed ls_call w = Inr (Execve ''/bin/ls'' [Chars ''/bin/ls'', Chars ''-la'', Null] (environ w))"
  using handed_execl [of "''/bin/ls''" "Chars ''ls''" "[''-la'']" "[]" w]
  by (simp add: ls_call_def)

section \<open>One message, then the Executor\<close>

text \<open>
  The trace of a call with the Executor of the specification: the invocation of
  \<^verbatim>\<open>write_message\<close>, the record if the session reports, and then the delegate call,
  unless the marshalling or the resolution failed.
\<close>

lemma intercept_trace:
  "trace (fst (intercept (Executor cv) dl c w)) =
     trace w @ Write_message (name_of c) # (if reporting w then [Record (name_of c)] else []) @
       (case handed c w of
          Inl f \<Rightarrow> []
        | Inr rq \<Rightarrow>
            (case dl (symbol rq) of
               None \<Rightarrow> []
             | Some impl \<Rightarrow> [Delegate (delegated cv (SESSION w) rq)]))"
proof (cases "handed c w")
  case (Inl f)
  then show ?thesis by (simp add: intercept_handed write_message_def)
next
  case (Inr rq)
  then show ?thesis
    by (cases "dl (symbol rq)")
       (simp_all add: intercept_handed RESOLVER_eq Executor_resolved Executor_unresolved
          write_message_def)
qed

lemma intercept_records:
  "records (name_of c) (fst (intercept (Executor cv) dl c w)) =
     records (name_of c) w + (if reporting w then 1 else 0)"
  by (simp add: records_def intercept_trace split: sum.splits option.splits)

text \<open>
  C6, as stated, fails on the session of the specification: a call of \<^verbatim>\<open>execvp\<close> in a
  process loaded without the configuration keys invokes \<^verbatim>\<open>write_message\<close> and is
  delegated, and no record is written, since a disabled session does not report.
\<close>

theorem disabled_session_writes_no_record:
  "trace (fst (intercept (Executor example_conventions) example_dl
            (Call_execvp ''ls'' [Chars ''ls'', Chars ''-la'', Null]) disabled_world)) =
     trace disabled_world @
       [Write_message ''execvp'',
        Delegate (Execvpe ''ls'' [Chars ''ls'', Chars ''-la'', Null] bare_environ)] \<and>
   records ''execvp'' (fst (intercept (Executor example_conventions) example_dl
            (Call_execvp ''ls'' [Chars ''ls'', Chars ''-la'', Null]) disabled_world)) = 0"
proof -
  let ?c = "Call_execvp ''ls'' [Chars ''ls'', Chars ''-la'', Null]"
  have quiet: "\<not> reporting disabled_world"
    by (rule disabled_world_not_reporting)
  have none: "records ''execvp'' disabled_world = 0"
    by (simp add: records_def disabled_world_eq)
  have ambient: "environ disabled_world = bare_environ"
    by (simp add: disabled_world_eq)
  have "trace (fst (intercept (Executor example_conventions) example_dl ?c disabled_world)) =
     trace disabled_world @
       [Write_message ''execvp'',
        Delegate (Execvpe ''ls'' [Chars ''ls'', Chars ''-la'', Null] bare_environ)]"
    using quiet ambient
    by (simp add: intercept_trace [of example_conventions example_dl ?c disabled_world]
          handed_vectors example_dl_def delegated_pass_through disabled_world_not_valid
        del: intercept.simps)
  moreover
  have "records ''execvp'' (fst (intercept (Executor example_conventions) example_dl ?c
      disabled_world)) = 0"
    using quiet none
      intercept_records [of ?c example_conventions example_dl disabled_world]
    by (simp del: intercept.simps)
  ultimately show ?thesis by blast
qed

text \<open>
  C6, amended. Every call of an overridden operation invokes \<^verbatim>\<open>write_message\<close> once,
  with the name of the operation, and is from then on the Executor, whatever it is,
  applied to the request handed over (or a fault of the marshalling). With the session
  and the Executor of the specification, the call adds to the trace that invocation,
  then exactly one record named after the operation when the session is enabled and the
  destination takes the write, and no record otherwise, and only then the delegate call:
  the number of records with that name grows by one or by none. The first
  \<^verbatim>\<open>on_load\<close> that returns adds, after the construction of the session, the message
  \<^verbatim>\<open>on_load\<close> and its record on the same condition; \<^verbatim>\<open>on_unload\<close> of a loaded
  library adds the message \<^verbatim>\<open>on_unload\<close> and its record on the same condition.
\<close>

theorem message_before_executor:
  "intercept ex dl c w =
     (case handed c w of
        Inl f \<Rightarrow> (write_message (name_of c) w, Inl f)
      | Inr rq \<Rightarrow> ex (SESSION w) (RESOLVER dl) rq (write_message (name_of c) w)) \<and>
   trace (fst (intercept (Executor cv) dl' c w)) =
     trace w @ Write_message (name_of c) # (if reporting w then [Record (name_of c)] else []) @
       (case handed c w of
          Inl f \<Rightarrow> []
        | Inr rq \<Rightarrow>
            (case dl' (symbol rq) of
               None \<Rightarrow> []
             | Some impl \<Rightarrow> [Delegate (delegated cv (SESSION w) rq)])) \<and>
   records (name_of c) (fst (intercept (Executor cv) dl' c w)) =
     records (name_of c) w + (if reporting w then 1 else 0) \<and>
   (\<not> LOADED w \<longrightarrow> snd (on_load cv w) = Inr () \<longrightarrow>
      trace (fst (on_load cv w)) =
        trace w @ Session_constructed (environ w) # Write_message ''on_load'' #
          (if is_valid (Session_from cv (environ w)) \<and> writable w
           then [Record ''on_load''] else [])) \<and>
   (LOADED w \<longrightarrow>
      trace (fst (on_unload w)) =
        trace w @ Write_message ''on_unload'' #
          (if reporting w then [Record ''on_unload''] else []))"
proof (intro conjI impI)
  show "intercept ex dl c w =
     (case handed c w of
        Inl f \<Rightarrow> (write_message (name_of c) w, Inl f)
      | Inr rq \<Rightarrow> ex (SESSION w) (RESOLVER dl) rq (write_message (name_of c) w))"
    by (rule intercept_handed)
next
  show "trace (fst (intercept (Executor cv) dl' c w)) =
     trace w @ Write_message (name_of c) # (if reporting w then [Record (name_of c)] else []) @
       (case handed c w of
          Inl f \<Rightarrow> []
        | Inr rq \<Rightarrow>
            (case dl' (symbol rq) of
               None \<Rightarrow> []
             | Some impl \<Rightarrow> [Delegate (delegated cv (SESSION w) rq)]))"
    by (rule intercept_trace)
next
  show "records (name_of c) (fst (intercept (Executor cv) dl' c w)) =
     records (name_of c) w + (if reporting w then 1 else 0)"
    by (rule intercept_records)
next
  assume "\<not> LOADED w" and "snd (on_load cv w) = Inr ()"
  then show "trace (fst (on_load cv w)) =
        trace w @ Session_constructed (environ w) # Write_message ''on_load'' #
          (if is_valid (Session_from cv (environ w)) \<and> writable w
           then [Record ''on_load''] else [])"
    by (rule on_load_trace)
next
  assume "LOADED w"
  then show "trace (fst (on_unload w)) =
        trace w @ Write_message ''on_unload'' #
          (if reporting w then [Record ''on_unload''] else [])"
    by (simp add: on_unload_loaded)
qed

theorem message_before_executor_witness:
  "\<not> LOADED (initial example_environ) \<and>
   snd (on_load example_conventions (initial example_environ)) = Inr () \<and>
   trace (fst (on_load example_conventions (initial example_environ))) =
     [Session_constructed example_environ, Write_message ''on_load'', Record ''on_load''] \<and>
   LOADED enabled_world \<and>
   trace (fst (on_unload enabled_world)) =
     trace enabled_world @ [Write_message ''on_unload'', Record ''on_unload''] \<and>
   trace (fst (intercept (Executor example_conventions) example_dl
            (Call_execvp ''ls'' [Chars ''ls'', Chars ''-la'', Null]) enabled_world)) =
     trace enabled_world @
       [Write_message ''execvp'', Record ''execvp'',
        Delegate (Execvpe ''/bin/true''
          [Chars ''/bin/true'', Chars ''--supervise'', Chars ''--destination'', Chars ''/tmp/sink'',
           Chars ''--file'', Chars ''ls'', Chars ''ls'', Chars ''-la'', Null]
          example_environ)]"
proof -
  have fresh: "\<not> LOADED (initial example_environ)"
    by (simp add: initial_def)
  have returns: "snd (on_load example_conventions (initial example_environ)) = Inr ()"
    by (simp add: initial_def on_load_def Let_def write_message_def
         Session_persist_def Session_from_def example_conventions_def example_environ_def
         session_env_def entry_def Storage_def store_def BUFFER_SIZE_def no_session_def)
  have valid: "is_valid (Session_from example_conventions (environ (initial example_environ))) \<and>
      writable (initial example_environ)"
    by (simp add: initial_def is_valid_def Session_from_def example_conventions_def
         example_environ_def)
  note at_start = message_before_executor
    [where w = "initial example_environ" and cv = example_conventions]
  from at_start fresh returns
  have "trace (fst (on_load example_conventions (initial example_environ))) =
     trace (initial example_environ) @ Session_constructed (environ (initial example_environ)) #
       Write_message ''on_load'' #
       (if is_valid (Session_from example_conventions (environ (initial example_environ))) \<and>
           writable (initial example_environ)
        then [Record ''on_load''] else [])"
    by blast
  with valid
  have load: "trace (fst (on_load example_conventions (initial example_environ))) =
     [Session_constructed example_environ, Write_message ''on_load'', Record ''on_load'']"
    by (simp add: initial_def)
  note when_loaded = message_before_executor
    [where w = enabled_world and cv = example_conventions and dl' = example_dl
       and c = "Call_execvp ''ls'' [Chars ''ls'', Chars ''-la'', Null]"]
  from when_loaded enabled_world_LOADED
  have "trace (fst (on_unload enabled_world)) =
      trace enabled_world @ Write_message ''on_unload'' #
        (if reporting enabled_world then [Record ''on_unload''] else [])"
    by blast
  with enabled_world_reporting
  have unload: "trace (fst (on_unload enabled_world)) =
      trace enabled_world @ [Write_message ''on_unload'', Record ''on_unload'']"
    by simp
  from when_loaded
  have "trace (fst (intercept (Executor example_conventions) example_dl
            (Call_execvp ''ls'' [Chars ''ls'', Chars ''-la'', Null]) enabled_world)) =
     trace enabled_world @
       Write_message (name_of (Call_execvp ''ls'' [Chars ''ls'', Chars ''-la'', Null])) #
       (if reporting enabled_world
        then [Record (name_of (Call_execvp ''ls'' [Chars ''ls'', Chars ''-la'', Null]))] else []) @
       (case handed (Call_execvp ''ls'' [Chars ''ls'', Chars ''-la'', Null]) enabled_world of
          Inl f \<Rightarrow> []
        | Inr rq \<Rightarrow>
            (case example_dl (symbol rq) of
               None \<Rightarrow> []
             | Some impl \<Rightarrow> [Delegate (delegated example_conventions (SESSION enabled_world) rq)]))"
    by blast
  with enabled_world_reporting
  have call: "trace (fst (intercept (Executor example_conventions) example_dl
            (Call_execvp ''ls'' [Chars ''ls'', Chars ''-la'', Null]) enabled_world)) =
     trace enabled_world @
       [Write_message ''execvp'', Record ''execvp'',
        Delegate (Execvpe ''/bin/true''
          [Chars ''/bin/true'', Chars ''--supervise'', Chars ''--destination'', Chars ''/tmp/sink'',
           Chars ''--file'', Chars ''ls'', Chars ''ls'', Chars ''-la'', Null]
          example_environ)]"
    by (simp add: handed_vectors example_dl_def)
       (simp add: enabled_world_eq delegated_def is_valid_def
          rewrite_def prefix_of_def example_conventions_def
          merge_def session_env_def entry_def key_of_def example_environ_def)
  from fresh returns load enabled_world_LOADED unload call show ?thesis by blast
qed

section \<open>The value of the delegate\<close>

text \<open>
  C7. Each of the eleven entry points returns what the Executor, whatever it is, returns
  for the request the entry point hands over, in the world in which the message was
  written; the spawn entry points hand over the caller's address for the child identifier
  and the two handles as they got them. The Executor of the specification calls the
  original implementation the resolver gives for the operation and returns the value of
  that call (it aborts when there is none); the delegated call is of the same operation
  shape and, for the spawn shapes, has the caller's address for the child identifier. So
  what a call of an overridden operation returns is the value the delegate returned.
\<close>

theorem delegate_result_returned:
  "execve ex dl path a envp w =
     ex (SESSION w) (RESOLVER dl) (Execve path a envp) (write_message ''execve'' w) \<and>
   execv ex dl path a w =
     ex (SESSION w) (RESOLVER dl) (Execve path a (environ w)) (write_message ''execv'' w) \<and>
   execvpe ex dl path a envp w =
     ex (SESSION w) (RESOLVER dl) (Execvpe path a envp) (write_message ''execvpe'' w) \<and>
   execvp ex dl path a w =
     ex (SESSION w) (RESOLVER dl) (Execvpe path a (environ w)) (write_message ''execvp'' w) \<and>
   execvP ex dl path search_path a w =
     ex (SESSION w) (RESOLVER dl) (ExecvP path search_path a (environ w))
        (write_message ''execvP'' w) \<and>
   exect ex dl path a envp w =
     ex (SESSION w) (RESOLVER dl) (Execve path a envp) (write_message ''exect'' w) \<and>
   execl ex dl path arg (map (Arg \<circ> Chars) ss @ Arg Null # rest) w =
     ex (SESSION w) (RESOLVER dl) (Execve path (Chars path # map Chars ss @ [Null]) (environ w))
        (write_message ''execl'' w) \<and>
   execlp ex dl path arg (map (Arg \<circ> Chars) ss @ Arg Null # rest) w =
     ex (SESSION w) (RESOLVER dl) (Execvpe path (Chars path # map Chars ss @ [Null]) (environ w))
        (write_message ''execlp'' w) \<and>
   execle ex dl path arg (map (Arg \<circ> Chars) ss @ Arg Null # Env envp # rest) w =
     ex (SESSION w) (RESOLVER dl) (Execve path (Chars path # map Chars ss @ [Null]) envp)
        (write_message ''execle'' w) \<and>
   posix_spawn ex dl pid path file_actions attrp a envp w =
     ex (SESSION w) (RESOLVER dl) (Posix_spawn pid path file_actions attrp a envp)
        (write_message ''posix_spawn'' w) \<and>
   posix_spawnp ex dl pid path file_actions attrp a envp w =
     ex (SESSION w) (RESOLVER dl) (Posix_spawnp pid path file_actions attrp a envp)
        (write_message ''posix_spawnp'' w) \<and>
   RESOLVER dl name = dl name \<and>
   (resolver (symbol rq) = Some impl \<longrightarrow>
      Executor cv S resolver rq w =
        (w\<lparr>trace := trace w @ [Delegate (delegated cv S rq)]\<rparr>, Inr (impl (delegated cv S rq)))) \<and>
   (resolver (symbol rq) = None \<longrightarrow>
      Executor cv S resolver rq w = (w, Inl Resolution_failed)) \<and>
   symbol (delegated cv S rq) = symbol rq \<and>
   pid_of (delegated cv S rq) = pid_of rq \<and>
   snd (intercept (Executor cv) dl' c w) =
     (case handed c w of
        Inl f \<Rightarrow> Inl f
      | Inr rq' \<Rightarrow>
          (case dl' (symbol rq') of
             None \<Rightarrow> Inl Resolution_failed
           | Some impl' \<Rightarrow> Inr (impl' (delegated cv (SESSION w) rq'))))"
proof (intro conjI impI)
  show "execve ex dl path a envp w =
     ex (SESSION w) (RESOLVER dl) (Execve path a envp) (write_message ''execve'' w)"
    by (simp add: execve_def write_message_def)
next
  show "execv ex dl path a w =
     ex (SESSION w) (RESOLVER dl) (Execve path a (environ w)) (write_message ''execv'' w)"
    by (simp add: execv_def write_message_def)
next
  show "execvpe ex dl path a envp w =
     ex (SESSION w) (RESOLVER dl) (Execvpe path a envp) (write_message ''execvpe'' w)"
    by (simp add: execvpe_def write_message_def)
next
  show "execvp ex dl path a w =
     ex (SESSION w) (RESOLVER dl) (Execvpe path a (environ w)) (write_message ''execvp'' w)"
    by (simp add: execvp_def write_message_def)
next
  show "execvP ex dl path search_path a w =
     ex (SESSION w) (RESOLVER dl) (ExecvP path search_path a (environ w))
        (write_message ''execvP'' w)"
    by (simp add: execvP_def write_message_def)
next
  show "exect ex dl path a envp w =
     ex (SESSION w) (RESOLVER dl) (Execve path a envp) (write_message ''exect'' w)"
    by (simp add: exect_def write_message_def)
next
  show "execl ex dl path arg (map (Arg \<circ> Chars) ss @ Arg Null # rest) w =
     ex (SESSION w) (RESOLVER dl) (Execve path (Chars path # map Chars ss @ [Null]) (environ w))
        (write_message ''execl'' w)"
    by (rule execl_listed)
next
  show "execlp ex dl path arg (map (Arg \<circ> Chars) ss @ Arg Null # rest) w =
     ex (SESSION w) (RESOLVER dl) (Execvpe path (Chars path # map Chars ss @ [Null]) (environ w))
        (write_message ''execlp'' w)"
    by (rule execlp_listed)
next
  show "execle ex dl path arg (map (Arg \<circ> Chars) ss @ Arg Null # Env envp # rest) w =
     ex (SESSION w) (RESOLVER dl) (Execve path (Chars path # map Chars ss @ [Null]) envp)
        (write_message ''execle'' w)"
    by (rule execle_listed)
next
  show "posix_spawn ex dl pid path file_actions attrp a envp w =
     ex (SESSION w) (RESOLVER dl) (Posix_spawn pid path file_actions attrp a envp)
        (write_message ''posix_spawn'' w)"
    by (simp add: posix_spawn_def write_message_def)
next
  show "posix_spawnp ex dl pid path file_actions attrp a envp w =
     ex (SESSION w) (RESOLVER dl) (Posix_spawnp pid path file_actions attrp a envp)
        (write_message ''posix_spawnp'' w)"
    by (simp add: posix_spawnp_def write_message_def)
next
  show "RESOLVER dl name = dl name"
    by (simp add: RESOLVER_eq)
next
  assume "resolver (symbol rq) = Some impl"
  then show "Executor cv S resolver rq w =
        (w\<lparr>trace := trace w @ [Delegate (delegated cv S rq)]\<rparr>, Inr (impl (delegated cv S rq)))"
    by (rule Executor_resolved)
next
  assume "resolver (symbol rq) = None"
  then show "Executor cv S resolver rq w = (w, Inl Resolution_failed)"
    by (rule Executor_unresolved)
next
  show "symbol (delegated cv S rq) = symbol rq"
    by (simp add: delegated_same_operation)
next
  show "pid_of (delegated cv S rq) = pid_of rq"
    by (simp add: delegated_same_operation)
next
  show "snd (intercept (Executor cv) dl' c w) =
     (case handed c w of
        Inl f \<Rightarrow> Inl f
      | Inr rq' \<Rightarrow>
          (case dl' (symbol rq') of
             None \<Rightarrow> Inl Resolution_failed
           | Some impl' \<Rightarrow> Inr (impl' (delegated cv (SESSION w) rq'))))"
  proof (cases "handed c w")
    case (Inl f)
    then show ?thesis by (simp add: intercept_handed)
  next
    case (Inr rq')
    then show ?thesis
      by (cases "dl' (symbol rq')")
         (simp_all add: intercept_handed RESOLVER_eq Executor_resolved Executor_unresolved)
  qed
qed

text \<open>
  \<^verbatim>\<open>execve\<close> returns the \<open>-1\<close> of the original \<^verbatim>\<open>execve\<close>, and
  \<^verbatim>\<open>posix_spawn\<close> the \<open>0\<close> of the original \<^verbatim>\<open>posix_spawn\<close>, which was called with
  the caller's address 7 for the child identifier.
\<close>

theorem delegate_result_returned_witness:
  "example_dl (symbol (Execve ''/bin/ls'' [Chars ''ls'', Null] [])) = Some (\<lambda>rq. Returned (- 1)) \<and>
   execve (Executor example_conventions) example_dl ''/bin/ls'' [Chars ''ls'', Null] []
     disabled_world =
     (disabled_world\<lparr>trace := trace disabled_world @
        [Write_message ''execve'', Delegate (Execve ''/bin/ls'' [Chars ''ls'', Null] [])]\<rparr>,
      Inr (Returned (- 1))) \<and>
   example_dl (symbol (Posix_spawn 7 ''/bin/ls'' 0 0 [Chars ''ls'', Null] [])) =
     Some (\<lambda>rq. Returned 0) \<and>
   posix_spawn (Executor example_conventions) example_dl 7 ''/bin/ls'' 0 0 [Chars ''ls'', Null] []
     disabled_world =
     (disabled_world\<lparr>trace := trace disabled_world @
        [Write_message ''posix_spawn'',
         Delegate (Posix_spawn 7 ''/bin/ls'' 0 0 [Chars ''ls'', Null] [])]\<rparr>,
      Inr (Returned 0))"
proof -
  let ?S = "SESSION disabled_world"
  let ?e = "Execve ''/bin/ls'' [Chars ''ls'', Null] []"
  let ?p = "Posix_spawn 7 ''/bin/ls'' 0 0 [Chars ''ls'', Null] []"
  have re: "example_dl (symbol ?e) = Some (\<lambda>rq. Returned (- 1))"
    and rp: "example_dl (symbol ?p) = Some (\<lambda>rq. Returned 0)"
    by (simp_all add: example_dl_def)
  have same: "RESOLVER example_dl = example_dl"
    by (rule RESOLVER_eq)
  have pass: "delegated example_conventions ?S ?e = ?e" "delegated example_conventions ?S ?p = ?p"
    by (simp_all add: delegated_pass_through disabled_world_not_valid)
  have quiet: "write_message ''execve'' disabled_world =
      disabled_world\<lparr>trace := trace disabled_world @ [Write_message ''execve'']\<rparr>"
    "write_message ''posix_spawn'' disabled_world =
      disabled_world\<lparr>trace := trace disabled_world @ [Write_message ''posix_spawn'']\<rparr>"
    using disabled_world_not_reporting by (simp_all add: write_message_def)
  from delegate_result_returned
    [where ex = "Executor example_conventions" and dl = example_dl and path = "''/bin/ls''"
       and a = "[Chars ''ls'', Null]" and envp = "[]" and w = disabled_world]
  have "execve (Executor example_conventions) example_dl ''/bin/ls'' [Chars ''ls'', Null] []
      disabled_world =
    Executor example_conventions ?S (RESOLVER example_dl) ?e (write_message ''execve'' disabled_world)"
    by blast
  moreover from re delegate_result_returned
    [where resolver = example_dl and rq = ?e and impl = "\<lambda>rq. Returned (- 1)"
       and cv = example_conventions and S = ?S and w = "write_message ''execve'' disabled_world"]
  have "Executor example_conventions ?S example_dl ?e (write_message ''execve'' disabled_world) =
    ((write_message ''execve'' disabled_world)
       \<lparr>trace := trace (write_message ''execve'' disabled_world) @
          [Delegate (delegated example_conventions ?S ?e)]\<rparr>,
     Inr (Returned (- 1)))"
    by blast
  ultimately have one: "execve (Executor example_conventions) example_dl ''/bin/ls''
      [Chars ''ls'', Null] [] disabled_world =
     (disabled_world\<lparr>trace := trace disabled_world @
        [Write_message ''execve'', Delegate ?e]\<rparr>, Inr (Returned (- 1)))"
    by (simp add: same pass quiet)
  from delegate_result_returned
    [where ex = "Executor example_conventions" and dl = example_dl and path = "''/bin/ls''"
       and a = "[Chars ''ls'', Null]" and envp = "[]" and w = disabled_world and pid = 7
       and file_actions = 0 and attrp = 0]
  have "posix_spawn (Executor example_conventions) example_dl 7 ''/bin/ls'' 0 0
      [Chars ''ls'', Null] [] disabled_world =
    Executor example_conventions ?S (RESOLVER example_dl) ?p
      (write_message ''posix_spawn'' disabled_world)"
    by blast
  moreover from rp delegate_result_returned
    [where resolver = example_dl and rq = ?p and impl = "\<lambda>rq. Returned 0"
       and cv = example_conventions and S = ?S
       and w = "write_message ''posix_spawn'' disabled_world"]
  have "Executor example_conventions ?S example_dl ?p
      (write_message ''posix_spawn'' disabled_world) =
    ((write_message ''posix_spawn'' disabled_world)
       \<lparr>trace := trace (write_message ''posix_spawn'' disabled_world) @
          [Delegate (delegated example_conventions ?S ?p)]\<rparr>,
     Inr (Returned 0))"
    by blast
  ultimately have two: "posix_spawn (Executor example_conventions) example_dl 7 ''/bin/ls'' 0 0
      [Chars ''ls'', Null] [] disabled_world =
     (disabled_world\<lparr>trace := trace disabled_world @
        [Write_message ''posix_spawn'', Delegate ?p]\<rparr>, Inr (Returned 0))"
    by (simp add: same pass quiet)
  from re one rp two show ?thesis by blast
qed

section \<open>Rewrite and pass-through\<close>

text \<open>
  For the operations that take an argument vector, the Executor of the specification is
  handed the caller's vector, and the delegated call is what the specification says: with
  an enabled session and a target that is not the supervisor, the supervisor is the
  target, and the vector is the fixed prefix followed by the caller's vector; with a
  disabled session, the request is the caller's.
\<close>

lemma rewrite_invariant_vectors:
  assumes "\<not> is_variadic c" and "is_valid (SESSION w)" and "supervisor (SESSION w) = Some spath"
    and "handed c w = Inr rq" and "target rq \<noteq> spath" and "dl (symbol rq) = Some impl"
  shows "intercept (Executor cv) dl c w =
           ((write_message (name_of c) w)
              \<lparr>trace := trace (write_message (name_of c) w) @
                 [Delegate (rewrite cv (SESSION w) spath rq)]\<rparr>,
            Inr (impl (rewrite cv (SESSION w) spath rq))) \<and>
         target (rewrite cv (SESSION w) spath rq) = spath \<and>
         argv_of (rewrite cv (SESSION w) spath rq) =
           prefix_of cv (SESSION w) spath rq @ caller_argv c"
proof -
  from handed_vector [OF assms(1), of w] assms(4) have "argv_of rq = caller_argv c" by simp
  with assms show ?thesis
    by (simp add: intercept_handed RESOLVER_eq Executor_resolved delegated_rewrite rewrite_shape)
qed

lemma pass_through_vectors:
  assumes "\<not> is_variadic c" and "\<not> is_valid (SESSION w)"
    and "handed c w = Inr rq" and "dl (symbol rq) = Some impl"
  shows "intercept (Executor cv) dl c w =
           (w\<lparr>trace := trace w @ [Write_message (name_of c), Delegate rq]\<rparr>, Inr (impl rq)) \<and>
         argv_of rq = caller_argv c"
proof -
  from handed_vector [OF assms(1), of w] assms(3) have "argv_of rq = caller_argv c" by simp
  with assms show ?thesis
    by (simp add: intercept_handed RESOLVER_eq Executor_resolved delegated_pass_through
          write_message_def reporting_def)
qed

text \<open>
  For the variadic operations the vector handed to the Executor is the caller's with
  \<^verbatim>\<open>path\<close> (\<^verbatim>\<open>file\<close>) in the place of \<^verbatim>\<open>arg\<close>: it is the caller's vector only
  when the caller's \<^verbatim>\<open>argv[0]\<close> is the path itself.
\<close>

lemma listed_strings:
  "listed (map (Arg \<circ> Chars) ss @ Arg Null # rest) = map Chars ss @ [Null]"
  by (induction ss) auto

lemma variadic_argv0_replaced:
  "map_sum id argv_of (handed (Call_execl path arg (map (Arg \<circ> Chars) ss @ Arg Null # rest)) w) =
     Inr (Chars path # tl (caller_argv (Call_execl path arg (map (Arg \<circ> Chars) ss @ Arg Null # rest))))"
  "map_sum id argv_of (handed (Call_execlp path arg (map (Arg \<circ> Chars) ss @ Arg Null # rest)) w) =
     Inr (Chars path # tl (caller_argv (Call_execlp path arg (map (Arg \<circ> Chars) ss @ Arg Null # rest))))"
  "map_sum id argv_of
     (handed (Call_execle path arg (map (Arg \<circ> Chars) ss @ Arg Null # Env e # rest)) w) =
     Inr (Chars path #
          tl (caller_argv (Call_execle path arg (map (Arg \<circ> Chars) ss @ Arg Null # Env e # rest))))"
  by (simp_all add: handed_execl handed_execlp handed_execle listed_strings)

lemma variadic_argv_is_callers_iff:
  "(map_sum id argv_of (handed (Call_execl path arg (map (Arg \<circ> Chars) ss @ Arg Null # rest)) w) =
      Inr (caller_argv (Call_execl path arg (map (Arg \<circ> Chars) ss @ Arg Null # rest)))) =
   (arg = Chars path)"
  by (auto simp: handed_execl listed_strings)

text \<open>
  C1 is not what the variadic operations do. \<^verbatim>\<open>execl("/bin/ls", "ls", "-la", nullptr)\<close>
  with an enabled session: the caller's argument vector is \<^verbatim>\<open>ls -la\<close>; the tail of the
  delegated vector, after the prefix, is \<^verbatim>\<open>/bin/ls -la\<close>. The caller's
  \<^verbatim>\<open>argv[0]\<close> is lost, since \<^verbatim>\<open>execl\<close> puts \<^verbatim>\<open>path\<close> in its place.
\<close>

theorem execl_rewrite_replaces_argv0:
  "caller_argv ls_call = [Chars ''ls'', Chars ''-la'', Null] \<and>
   intercept (Executor example_conventions) example_dl ls_call enabled_world =
     (enabled_world\<lparr>trace := trace enabled_world @
        [Write_message ''execl'', Record ''execl'',
         Delegate (Execve ''/bin/true''
           ([Chars ''/bin/true'', Chars ''--supervise'', Chars ''--destination'', Chars ''/tmp/sink'',
             Chars ''--file'', Chars ''/bin/ls''] @
            [Chars ''/bin/ls'', Chars ''-la'', Null])
           example_environ)]\<rparr>,
      Inr (Returned (- 1)))"
  by (simp add: intercept_handed ls_call_handed RESOLVER_eq)
     (simp add: ls_call_def enabled_world_eq Executor_def delegated_def is_valid_def example_dl_def
        rewrite_def prefix_of_def example_conventions_def write_message_def reporting_def Let_def
        merge_def session_env_def entry_def key_of_def example_environ_def)

text \<open>
  C2 is not what the variadic operations do. The same call with a disabled session: the
  original \<^verbatim>\<open>execve\<close> is called with the vector \<^verbatim>\<open>/bin/ls -la\<close>, where the caller
  supplied \<^verbatim>\<open>ls -la\<close>.
\<close>

theorem execl_pass_through_replaces_argv0:
  "caller_argv ls_call = [Chars ''ls'', Chars ''-la'', Null] \<and>
   is_valid (SESSION disabled_world) = False \<and>
   intercept (Executor example_conventions) example_dl ls_call disabled_world =
     (disabled_world\<lparr>trace := trace disabled_world @
        [Write_message ''execl'',
         Delegate (Execve ''/bin/ls'' [Chars ''/bin/ls'', Chars ''-la'', Null] bare_environ)]\<rparr>,
      Inr (Returned (- 1)))"
  by (simp add: intercept_handed ls_call_handed RESOLVER_eq)
     (simp add: ls_call_def disabled_world_eq Executor_def delegated_def is_valid_def example_dl_def
        no_session_def write_message_def reporting_def Let_def)

end
